theory Spec2Isabelle
  imports Complex_Main
begin

section \<open>The runtime test task of build-system/tasks/runtime-test.js\<close>

text \<open>
  The task reads the command line (parsed by minimist into \<open>argv\<close>), the process
  environment, the path lists of build-system/config.js and the default Karma
  configuration, and assembles the configuration object handed to the Karma server.
  Everything the JavaScript reads from outside is an explicit argument of the model;
  everything it does besides returning (logging, throwing, leaving the process) is
  part of the result.
\<close>

subsection \<open>JavaScript values\<close>

text \<open>
  The values minimist puts into \<open>argv\<close> and the entries of Karma's \<open>files\<close> list:
  \<open>undefined\<close> for an absent flag, booleans, numbers (a double is represented by its
  rational value), strings, arrays (a repeated flag) and object literals (a file
  pattern with options).
\<close>

datatype jsval =
    JUndefined
  | JBool bool
  | JNum rat
  | JStr string
  | JArr "jsval list"
  | JObj "(string \<times> jsval) list"

text \<open>ToBoolean: what \<open>if (x)\<close>, \<open>!x\<close>, \<open>x || y\<close> and \<open>x ? a : b\<close> test.\<close>

fun truthy :: "jsval \<Rightarrow> bool" where
  "truthy JUndefined = False"
| "truthy (JBool b) = b"
| "truthy (JNum n) = (n \<noteq> 0)"
| "truthy (JStr s) = (s \<noteq> [])"
| "truthy (JArr xs) = True"
| "truthy (JObj kvs) = True"

text \<open>\<open>a || b\<close> yields \<open>a\<close> when it is truthy and \<open>b\<close> otherwise.\<close>

definition js_or :: "jsval \<Rightarrow> jsval \<Rightarrow> jsval" where
  "js_or a b = (if truthy a then a else b)"

text \<open>
  One argument of \<open>Array.prototype.concat\<close>: an array contributes its elements, any
  other value contributes itself.
\<close>

fun concat_arg :: "jsval \<Rightarrow> jsval list" where
  "concat_arg (JArr xs) = xs"
| "concat_arg v = [v]"

text \<open>
  \<open>Array.prototype.indexOf\<close>: the first index holding the element, or \<open>-1\<close>.
\<close>

fun indexOf_from :: "'a list \<Rightarrow> 'a \<Rightarrow> int \<Rightarrow> int" where
  "indexOf_from [] x i = -1"
| "indexOf_from (y # ys) x i = (if y = x then i else indexOf_from ys x (i + 1))"

definition js_indexOf :: "'a list \<Rightarrow> 'a \<Rightarrow> int" where
  "js_indexOf xs x = indexOf_from xs x 0"

text \<open>
  \<open>Array.prototype.splice(start, deleteCount)\<close> without inserted items; the value is
  the array after the call. A negative \<open>start\<close> counts from the end and is clamped at
  \<open>0\<close>; \<open>deleteCount\<close> is clamped to what is left after \<open>start\<close>.
\<close>

definition js_splice :: "'a list \<Rightarrow> int \<Rightarrow> int \<Rightarrow> 'a list" where
  "js_splice xs start deleteCount =
     (let len = int (length xs);
          s = (if start < 0 then max (len + start) 0 else min start len);
          d = min (max deleteCount 0) (len - s)
      in take (nat s) xs @ drop (nat (s + d)) xs)"

text \<open>
  ToString, as a template literal applies it. The digits of a number are the
  engine's business (\<open>Number::toString\<close>) and are taken as the parameter \<open>num\<close>.
  \<open>Array.prototype.join\<close> prints an \<open>undefined\<close> element as the empty string.
\<close>

fun join_comma :: "string list \<Rightarrow> string" where
  "join_comma [] = []"
| "join_comma [s] = s"
| "join_comma (s # t # ss) = s @ '','' @ join_comma (t # ss)"

fun js_toString :: "(rat \<Rightarrow> string) \<Rightarrow> jsval \<Rightarrow> string" where
  "js_toString num JUndefined = ''undefined''"
| "js_toString num (JBool b) = (if b then ''true'' else ''false'')"
| "js_toString num (JNum n) = num n"
| "js_toString num (JStr s) = s"
| "js_toString num (JArr xs) =
     join_comma (map (\<lambda>x. if x = JUndefined then [] else js_toString num x) xs)"
| "js_toString num (JObj kvs) = ''[object Object]''"

subsection \<open>Command line, environment and configuration\<close>

text \<open>
  \<open>argv\<close>: one field for each flag the file reads, \<open>JUndefined\<close> when the flag is not
  on the command line.
\<close>

record argv =
  argv_safari :: jsval
  argv_firefox :: jsval
  argv_edge :: jsval
  argv_ie :: jsval
  argv_saucelabs :: jsval
  argv_saucelabs_lite :: jsval
  argv_integration :: jsval
  argv_unit :: jsval
  argv_files :: jsval
  argv_randomize :: jsval
  argv_glob :: jsval
  argv_a4a :: jsval
  argv_seed :: jsval
  argv_watch :: jsval
  argv_w :: jsval
  argv_verbose :: jsval
  argv_v :: jsval
  argv_testnames :: jsval
  argv_compiled :: jsval
  argv_grep :: jsval
  argv_coverage :: jsval
  argv_config :: jsval

definition no_flags :: argv where
  "no_flags =
     \<lparr>argv_safari = JUndefined, argv_firefox = JUndefined, argv_edge = JUndefined,
      argv_ie = JUndefined, argv_saucelabs = JUndefined, argv_saucelabs_lite = JUndefined,
      argv_integration = JUndefined, argv_unit = JUndefined, argv_files = JUndefined,
      argv_randomize = JUndefined, argv_glob = JUndefined, argv_a4a = JUndefined,
      argv_seed = JUndefined, argv_watch = JUndefined, argv_w = JUndefined,
      argv_verbose = JUndefined, argv_v = JUndefined, argv_testnames = JUndefined,
      argv_compiled = JUndefined, argv_grep = JUndefined, argv_coverage = JUndefined,
      argv_config = JUndefined\<rparr>"

text \<open>
  \<open>process.env\<close>: a variable is absent or holds a string; \<open>!process.env.X\<close> is true
  for an absent variable and for the empty string.
\<close>

type_synonym environment = "string \<Rightarrow> string option"

definition env_truthy :: "environment \<Rightarrow> string \<Rightarrow> bool" where
  "env_truthy env name = (case env name of None \<Rightarrow> False | Some s \<Rightarrow> s \<noteq> [])"

text \<open>
  The Karma configuration object, with the properties this file reads or writes.
  \<open>karmaDefault\<close> comes from ./karma.conf and is an argument of the model. The
  properties \<open>browserify\<close>, \<open>preprocessors\<close> and \<open>coverageReporter\<close>, which only the
  \<open>--coverage\<close> branch touches, are not represented.
\<close>

record amp_client =
  useCompiledJs :: bool
  saucelabs :: bool
  adTypes :: "jsval list"
  mochaTimeout :: jsval

record karma_client =
  captureConsole :: bool
  mocha :: "(string \<times> jsval) list"
  amp :: "amp_client option"

record karma_config =
  browsers :: "string list"
  reporters :: "string list"
  singleRun :: bool
  files :: "jsval list"
  client :: karma_client

text \<open>What a run can throw: \<open>new Error(message)\<close>, or a failed directory read.\<close>

datatype js_error = Error string | ReaddirFailed

subsection \<open>getConfig\<close>

definition saucelabs_browsers :: "string list" where
  "saucelabs_browsers =
     [''SL_Chrome_android'', ''SL_Chrome_latest'', ''SL_Chrome_45'', ''SL_Firefox_latest'',
      ''SL_Safari_latest'', ''SL_Safari_10'', ''SL_Safari_9'', ''SL_iOS_latest'',
      ''SL_iOS_10_0'', ''SL_iOS_9_1'', ''SL_Edge_latest'', ''SL_IE_11'']"

definition saucelabs_lite_browsers :: "string list" where
  "saucelabs_lite_browsers = [''SL_Safari_latest'']"

definition getConfig :: "environment \<Rightarrow> karma_config \<Rightarrow> argv \<Rightarrow> js_error + karma_config" where
  "getConfig env karmaDefault a =
     (if truthy (argv_safari a) then Inr (karmaDefault\<lparr>browsers := [''Safari'']\<rparr>)
      else if truthy (argv_firefox a) then Inr (karmaDefault\<lparr>browsers := [''Firefox'']\<rparr>)
      else if truthy (argv_edge a) then Inr (karmaDefault\<lparr>browsers := [''Edge'']\<rparr>)
      else if truthy (argv_ie a) then Inr (karmaDefault\<lparr>browsers := [''IE'']\<rparr>)
      else if truthy (argv_saucelabs a) \<or> truthy (argv_saucelabs_lite a) then
        (if \<not> env_truthy env ''SAUCE_USERNAME'' then
           Inl (Error ''Missing SAUCE_USERNAME Env variable'')
         else if \<not> env_truthy env ''SAUCE_ACCESS_KEY'' then
           Inl (Error ''Missing SAUCE_ACCESS_KEY Env variable'')
         else Inr (karmaDefault
                \<lparr>reporters := [''super-dots'', ''saucelabs'', ''karmaSimpleReporter''],
                 browsers := (if truthy (argv_saucelabs a) then saucelabs_browsers
                              else saucelabs_lite_browsers)\<rparr>))
      else Inr karmaDefault)"

subsection \<open>getAdTypes\<close>

text \<open>
  \<open>path.extname\<close> and \<open>path.basename\<close> of Node, on the names a directory listing
  returns (no path separator in them). The extension starts at the last dot; a name
  whose last dot is its first character has none, and neither has \<open>..\<close>.
\<close>

definition path_extname :: "string \<Rightarrow> string" where
  "path_extname f =
     (if CHR ''.'' \<notin> set f then []
      else let ext = CHR ''.'' # rev (takeWhile (\<lambda>c. c \<noteq> CHR ''.'') (rev f));
               stem = take (length f - length ext) f
           in if stem = [] \<or> f = ''..'' then [] else ext)"

definition path_basename :: "string \<Rightarrow> string \<Rightarrow> string" where
  "path_basename f ext =
     (if ext \<noteq> [] \<and> length ext \<le> length f then
        (if ext = f then []
         else if drop (length f - length ext) f = ext then take (length f - length ext) f
         else f)
      else f)"

text \<open>The own properties of the object literal \<open>namingExceptions\<close>.\<close>

definition namingExceptions :: "(string \<times> string list) list" where
  "namingExceptions =
     [(''adblade'', [''adblade'', ''industrybrains'']),
      (''mantis'', [''mantis-display'', ''mantis-recommend'']),
      (''weborama'', [''weborama-display''])]"

text \<open>
  \<open>namingExceptions\<close> is a plain object literal, so the property read
  \<open>namingExceptions[adType]\<close> also finds what every object inherits from
  \<open>Object.prototype\<close>: eleven functions, listed here with their \<open>length\<close> (the number
  of declared parameters), and the accessor \<open>__proto__\<close>, which yields the prototype
  object itself.
\<close>

definition object_prototype_functions :: "(string \<times> nat) list" where
  "object_prototype_functions =
     [(''constructor'', 1), (''__defineGetter__'', 2), (''__defineSetter__'', 2),
      (''hasOwnProperty'', 1), (''__lookupGetter__'', 1), (''__lookupSetter__'', 1),
      (''isPrototypeOf'', 1), (''propertyIsEnumerable'', 1), (''toString'', 0),
      (''valueOf'', 0), (''toLocaleString'', 0)]"

datatype property =
    OwnArray "string list"
  | InheritedFunction nat
  | InheritedObject
  | NoProperty

definition namingExceptions_get :: "string \<Rightarrow> property" where
  "namingExceptions_get k =
     (case map_of namingExceptions k of
        Some expanded \<Rightarrow> OwnArray expanded
      | None \<Rightarrow>
          (case map_of object_prototype_functions k of
             Some n \<Rightarrow> InheritedFunction n
           | None \<Rightarrow> if k = ''__proto__'' then InheritedObject else NoProperty))"

text \<open>The inner loop: \<open>adTypes.push(expanded[j])\<close> for each \<open>j\<close>.\<close>

fun push_all :: "jsval list \<Rightarrow> jsval list \<Rightarrow> jsval list" where
  "push_all acc [] = acc"
| "push_all acc (e # es) = push_all (acc @ [e]) es"

text \<open>
  The outer loop over the directory listing, with \<open>adTypes\<close> as accumulator. Every
  property found is truthy, so \<open>if (expanded)\<close> fails only when there is none, and
  then the base name itself is pushed. An array pushes its elements. A function has
  \<open>length\<close> elements to read and each \<open>expanded[j]\<close> is \<open>undefined\<close>. The prototype
  object has no \<open>length\<close>, and \<open>0 < undefined\<close> is false: nothing is pushed.
\<close>

fun getAdTypes_loop :: "jsval list \<Rightarrow> string list \<Rightarrow> jsval list" where
  "getAdTypes_loop acc [] = acc"
| "getAdTypes_loop acc (f # fs) =
     (if path_extname f = ''.js''
         \<and> (case f of [] \<Rightarrow> True | c # _ \<Rightarrow> c \<noteq> CHR ''_'')
         \<and> f \<noteq> ''ads.extern.js''
      then
        (let adType = path_basename f ''.js'' in
         case namingExceptions_get adType of
           OwnArray expanded \<Rightarrow> getAdTypes_loop (push_all acc (map JStr expanded)) fs
         | InheritedFunction n \<Rightarrow> getAdTypes_loop (push_all acc (replicate n JUndefined)) fs
         | InheritedObject \<Rightarrow> getAdTypes_loop acc fs
         | NoProperty \<Rightarrow> getAdTypes_loop (acc @ [JStr adType]) fs)
      else getAdTypes_loop acc fs)"

text \<open>\<open>getAdTypes\<close>, given what \<open>fs.readdirSync('./ads/')\<close> returned.\<close>

definition getAdTypes :: "string list \<Rightarrow> jsval list" where
  "getAdTypes listing = getAdTypes_loop [JStr ''adsense'', JStr ''doubleclick''] listing"

subsection \<open>applyAmpConfig\<close>

text \<open>
  The selected AMP config: \<open>(argv.config === 'canary') ? 'canary' : 'prod'\<close>.
\<close>

definition ampConfig :: "argv \<Rightarrow> string" where
  "ampConfig a = (if argv_config a = JStr ''canary'' then ''canary'' else ''prod'')"

text \<open>
  The files on disk, by path. \<open>removeConfig\<close> and \<open>applyConfig\<close> live in
  ./prepend-global/index.js; they are arguments of the model: each takes the disk and
  either rejects with an error or resolves with the disk it leaves behind.
\<close>

type_synonym disk = "string \<Rightarrow> string option"

definition existsSync :: "disk \<Rightarrow> string \<Rightarrow> bool" where
  "existsSync d p = (d p \<noteq> None)"

definition applyAmpConfig ::
  "(string \<Rightarrow> disk \<Rightarrow> js_error + disk) \<Rightarrow>
   (string \<Rightarrow> string \<Rightarrow> string \<Rightarrow> bool \<Rightarrow> bool \<Rightarrow> disk \<Rightarrow> js_error + disk) \<Rightarrow>
   argv \<Rightarrow> string \<Rightarrow> disk \<Rightarrow> js_error + disk" where
  "applyAmpConfig removeConfig applyConfig a targetFile d =
     (let configFile = ''build-system/global-configs/'' @ ampConfig a @ ''-config.json'' in
      if existsSync d targetFile then
        (case removeConfig targetFile d of
           Inl e \<Rightarrow> Inl e
         | Inr d' \<Rightarrow> applyConfig (ampConfig a) targetFile configFile True True d')
      else Inr d)"

subsection \<open>runTests\<close>

text \<open>
  What \<open>runTests\<close> prints: calls of \<open>log\<close> whose arguments are coloured by
  \<open>green\<close>, \<open>yellow\<close>, \<open>cyan\<close> or \<open>red\<close> (each applied to the listed arguments), calls
  of \<open>console.info\<close>, and the start of the fake-response server on its port.
\<close>

datatype color = Green | Yellow | Cyan | Red

datatype styled = Styled color "jsval list"

datatype event = Log "styled list" | ConsoleInfo string | Webserver nat

text \<open>
  How a run ends: an error is thrown, the process exits (with the argument given to
  \<open>process.exit\<close>, if any), or the Karma server is started with the configuration
  built and \<open>process.env.SERVE_MODE\<close> set.
\<close>

datatype outcome =
    Threw js_error
  | Exited "int option"
  | KarmaStarted karma_config string

text \<open>
  The exit status of the process after \<open>process.exit(code)\<close>: the code given, else
  \<open>process.exitCode\<close> if it was set, else \<open>0\<close>; the status the parent sees is the low
  eight bits of that.
\<close>

definition exit_status :: "int option \<Rightarrow> int option \<Rightarrow> int" where
  "exit_status process_exitCode code =
     (case code of
        Some n \<Rightarrow> n
      | None \<Rightarrow> (case process_exitCode of Some n \<Rightarrow> n | None \<Rightarrow> 0)) mod 256"

text \<open>The path lists exported by build-system/config.js.\<close>

record test_paths =
  chaiAsPromised :: "jsval list"
  commonTestPaths :: "jsval list"
  integrationTestPaths :: "jsval list"
  unitTestOnSaucePaths :: "jsval list"
  unitTestPaths :: "jsval list"
  a4aTestPaths :: "string list"
  basicTestPaths :: "string list"
  testPaths :: "jsval list"
  simpleTestPath :: "jsval list"

text \<open>
  Everything outside the file that a run reads: the environment, the default Karma
  configuration, the path lists, the file system as \<open>glob.sync\<close> and
  \<open>fs.readdirSync('./ads/')\<close> see it (\<open>None\<close>: the read throws), the library function
  \<open>shuffleSeed.shuffle\<close>, the number \<open>Math.random()\<close> returns, and the engine's
  printing of numbers.
\<close>

record world =
  env :: environment
  karmaDefault :: karma_config
  config :: test_paths
  glob_sync :: "string \<Rightarrow> string list"
  readdir_ads :: "string list option"
  shuffle :: "string list \<Rightarrow> jsval \<Rightarrow> string list"
  math_random :: rat
  number_toString :: "rat \<Rightarrow> string"

text \<open>Reading a property of an object literal: \<open>undefined\<close> when it has none.\<close>

definition js_get :: "(string \<times> jsval) list \<Rightarrow> string \<Rightarrow> jsval" where
  "js_get obj k = (case map_of obj k of None \<Rightarrow> JUndefined | Some x \<Rightarrow> x)"

text \<open>
  Lines 208 to 218: \<open>--watch\<close>, \<open>--verbose\<close> and \<open>--testnames\<close> (with the short
  forms \<open>-w\<close> and \<open>-v\<close>) change the configuration \<open>getConfig\<close> returned.
\<close>

definition run_flags :: "argv \<Rightarrow> karma_config \<Rightarrow> karma_config" where
  "run_flags a c =
     (let c1 = (if truthy (argv_watch a) \<or> truthy (argv_w a)
                then c\<lparr>singleRun := False\<rparr> else c);
          c2 = (if truthy (argv_verbose a) \<or> truthy (argv_v a)
                then c1\<lparr>client := (client c1)\<lparr>captureConsole := True\<rparr>\<rparr> else c1)
      in if truthy (argv_testnames a) then c2\<lparr>reporters := [''mocha'']\<rparr> else c2)"

text \<open>
  Lines 249 to 252: \<open>testFiles = testFiles.concat(glob.sync(testPaths[index]))\<close> for
  each index of \<open>testPaths\<close>.
\<close>

fun glob_all :: "(string \<Rightarrow> string list) \<Rightarrow> string list \<Rightarrow> string list \<Rightarrow> string list" where
  "glob_all g testFiles [] = testFiles"
| "glob_all g testFiles (p # ps) = glob_all g (testFiles @ g p) ps"

text \<open>
  Lines 254 to 265: with \<open>--randomize\<close> or \<open>--a4a\<close> the seed is \<open>argv.seed ||
  Math.random()\<close>, two lines are logged and the list is shuffled with that seed.
\<close>

definition randomize_files :: "world \<Rightarrow> argv \<Rightarrow> string list \<Rightarrow> event list \<times> string list" where
  "randomize_files w a testFiles =
     (if truthy (argv_randomize a) \<or> truthy (argv_a4a a) then
        (let seed = js_or (argv_seed a) (JNum (math_random w)) in
         ([Log [Styled Yellow [JStr ''Randomizing:''],
                Styled Cyan [JStr ''Seeding with value'', seed]],
           Log [Styled Yellow [JStr ''To rerun same ordering, append''],
                Styled Cyan [JStr (''--seed='' @ js_toString (number_toString w) seed)],
                Styled Yellow [JStr ''to your invocation of''],
                Styled Cyan [JStr ''gulp test'']]],
          shuffle w testFiles seed))
      else ([], testFiles))"

text \<open>
  Lines 246 to 268, the branch of \<open>--randomize\<close>, \<open>--glob\<close> and \<open>--a4a\<close>: the list
  concatenated to \<open>c.files\<close>, and what is logged on the way.
\<close>

definition globbed_files :: "world \<Rightarrow> argv \<Rightarrow> string list" where
  "globbed_files w a =
     glob_all (glob_sync w) []
       (if truthy (argv_a4a a) then a4aTestPaths (config w) else basicTestPaths (config w))"

definition randomized_suite :: "world \<Rightarrow> argv \<Rightarrow> event list \<times> jsval list" where
  "randomized_suite w a =
     (let (evs, testFiles) = randomize_files w a (globbed_files w a);
          spliced = js_splice testFiles (js_indexOf testFiles ''test/_init_tests.js'') 1
      in (evs, commonTestPaths (config w) @ map JStr spliced))"

text \<open>
  Lines 230 to 277: \<open>c.files\<close> starts as \<open>config.chaiAsPromised\<close> (empty with
  \<open>--saucelabs\<close>), one branch of the selection adds its suite, and runs on Sauce Labs
  get \<open>config.simpleTestPath\<close> at the end.
\<close>

definition assemble_files :: "world \<Rightarrow> argv \<Rightarrow> karma_config \<Rightarrow> event list \<times> karma_config" where
  "assemble_files w a c =
     (let c1 = c\<lparr>files := (if truthy (argv_saucelabs a) then [] else chaiAsPromised (config w))\<rparr>;
          (evs, c2) =
            (if truthy (argv_files a) then
               (let c' = c1\<lparr>files := files c1 @ commonTestPaths (config w) @ concat_arg (argv_files a)\<rparr>
                in ([], if \<not> truthy (argv_saucelabs a) \<and> \<not> truthy (argv_saucelabs_lite a)
                        then c'\<lparr>reporters := [''mocha'']\<rparr> else c'))
             else if truthy (argv_integration a) then
               ([], c1\<lparr>files := files c1 @ integrationTestPaths (config w)\<rparr>)
             else if truthy (argv_unit a) then
               (if truthy (argv_saucelabs_lite a)
                then ([], c1\<lparr>files := files c1 @ unitTestOnSaucePaths (config w)\<rparr>)
                else ([], c1\<lparr>files := files c1 @ unitTestPaths (config w)\<rparr>))
             else if truthy (argv_randomize a) \<or> truthy (argv_glob a) \<or> truthy (argv_a4a a) then
               (let (evs, suite) = randomized_suite w a
                in (evs, c1\<lparr>files := files c1 @ suite\<rparr>))
             else ([], c1\<lparr>files := files c1 @ testPaths (config w)\<rparr>))
      in (evs,
          if truthy (argv_saucelabs a) \<or> truthy (argv_saucelabs_lite a)
          then c2\<lparr>files := files c2 @ simpleTestPath (config w)\<rparr> else c2))"

text \<open>
  Lines 279 to 326: the client options, \<open>SERVE_MODE\<close>, \<open>--grep\<close> and the reporters of
  \<open>--coverage\<close>. \<open>listing\<close> is what the directory read of \<open>getAdTypes\<close> returned.
\<close>

definition finish_config :: "argv \<Rightarrow> string list \<Rightarrow> karma_config \<Rightarrow> event list \<times> karma_config \<times> string" where
  "finish_config a listing c =
     (let c1 = c\<lparr>client := (client c)\<lparr>amp := Some
                  \<lparr>useCompiledJs = truthy (argv_compiled a),
                   saucelabs = (truthy (argv_saucelabs a) \<or> truthy (argv_saucelabs_lite a)),
                   adTypes = getAdTypes listing,
                   mochaTimeout = js_get (mocha (client c)) ''timeout''\<rparr>\<rparr>\<rparr>;
          serve_mode = (if truthy (argv_compiled a) then ''compiled'' else ''default'');
          c2 = (if truthy (argv_grep a)
                then c1\<lparr>client := (client c1)\<lparr>mocha := [(''grep'', argv_grep a)]\<rparr>\<rparr> else c1)
      in if truthy (argv_coverage a) then
           ([Log [Styled Cyan [JStr ''Including code coverage tests'']]],
            c2\<lparr>reporters := reporters c2 @ [''progress'', ''coverage'']\<rparr>, serve_mode)
         else ([], c2, serve_mode))"

text \<open>
  \<open>runTests\<close>, up to the start of the Karma server: what was printed and how the run
  ended. What Karma does with the configuration, and the callbacks that shut the
  server down and pass on Karma's exit code, come after that and are not part of the
  model.
\<close>

definition runTests :: "world \<Rightarrow> argv \<Rightarrow> event list \<times> outcome" where
  "runTests w a =
     (let ev0 = (if \<not> truthy (argv_integration a) \<and> env_truthy (env w) ''AMPSAUCE_REPO''
                 then [ConsoleInfo ''Deactivated for ampsauce repo''] else [])
      in case getConfig (env w) (karmaDefault w) a of
           Inl e \<Rightarrow> (ev0, Threw e)
         | Inr c0 \<Rightarrow>
             (let c = run_flags a c0
              in if truthy (argv_saucelabs a) \<and> \<not> truthy (argv_integration a) then
                   (ev0 @
                    [Log [Styled Red [JStr (''Only integration tests may be run on the full set of ''
                                             @ ''Sauce Labs browsers'')]],
                     Log [Styled Red [JStr ''Use''], Styled Cyan [JStr ''--saucelabs''],
                          Styled Red [JStr ''with''], Styled Cyan [JStr ''--integration'']]],
                    Exited None)
                 else
                   (let (ev1, c4) = assemble_files w a c in
                    case readdir_ads w of
                      None \<Rightarrow> (ev0 @ ev1, Threw ReaddirFailed)
                    | Some listing \<Rightarrow>
                        (let (ev2, c5, serve_mode) = finish_config a listing c4
                         in (ev0 @ ev1 @ ev2 @
                             [Webserver 31862,
                              Log [Styled Yellow
                                     [JStr ''Started test responses server on localhost:31862'']]],
                             KarmaStarted c5 serve_mode)))))"

subsection \<open>The specification's vocabulary\<close>

text \<open>
  The ad-type enumeration in the specification's words: an implementation file is a
  \<open>.js\<close> file of the directory (a name of more than three characters that ends in
  \<open>.js\<close>) that is neither private (leading underscore) nor the ignored
  \<open>ads.extern.js\<close>; its base name is the name without \<open>.js\<close>; the exception table
  gives the type identifiers of three base names, and every other base name is its own
  type identifier.
\<close>

definition is_scanned :: "string \<Rightarrow> bool" where
  "is_scanned f \<longleftrightarrow>
     3 < length f \<and> drop (length f - 3) f = ''.js'' \<and> hd f \<noteq> CHR ''_''
     \<and> f \<noteq> ''ads.extern.js''"

definition base_name :: "string \<Rightarrow> string" where
  "base_name f = take (length f - 3) f"

definition type_entries :: "string \<Rightarrow> string list" where
  "type_entries name =
     (if name = ''adblade'' then [''adblade'', ''industrybrains'']
      else if name = ''mantis'' then [''mantis-display'', ''mantis-recommend'']
      else if name = ''weborama'' then [''weborama-display'']
      else [name])"

text \<open>
  The base names the specification does not speak of: the names of the members an
  object literal inherits.
\<close>

definition inherited_names :: "string list" where
  "inherited_names = map fst object_prototype_functions @ [''__proto__'']"

text \<open>
  The file selection in the specification's words: one of five modes is active, found
  by a fixed precedence, and each mode has its suite.
\<close>

datatype selection_mode =
  ExplicitFiles | IntegrationSuite | UnitSuite | RandomizedSuite | DefaultSuite

definition selection_mode_of :: "argv \<Rightarrow> selection_mode" where
  "selection_mode_of a =
     (if truthy (argv_files a) then ExplicitFiles
      else if truthy (argv_integration a) then IntegrationSuite
      else if truthy (argv_unit a) then UnitSuite
      else if truthy (argv_randomize a) \<or> truthy (argv_glob a) \<or> truthy (argv_a4a a)
        then RandomizedSuite
      else DefaultSuite)"

fun suite_of :: "world \<Rightarrow> argv \<Rightarrow> selection_mode \<Rightarrow> jsval list" where
  "suite_of w a ExplicitFiles = commonTestPaths (config w) @ concat_arg (argv_files a)"
| "suite_of w a IntegrationSuite = integrationTestPaths (config w)"
| "suite_of w a UnitSuite =
     (if truthy (argv_saucelabs_lite a) then unitTestOnSaucePaths (config w)
      else unitTestPaths (config w))"
| "suite_of w a RandomizedSuite = snd (randomized_suite w a)"
| "suite_of w a DefaultSuite = testPaths (config w)"

text \<open>The file list a run hands to Karma, when it gets that far.\<close>

fun files_of :: "event list \<times> outcome \<Rightarrow> jsval list option" where
  "files_of (evs, KarmaStarted c m) = Some (files c)"
| "files_of (evs, Threw e) = None"
| "files_of (evs, Exited n) = None"

subsection \<open>A concrete setting\<close>

text \<open>
  A small instance of everything a run reads, for evaluating the functions above: a
  default Karma configuration, path lists, a directory tree as the two globs see it,
  and stand-ins for the library shuffle (it reverses the list for a numeric seed of
  at least one half, rotates it for a seed that is not a number and keeps it
  otherwise) and for the printing of the numbers used.
\<close>

definition example_karmaDefault :: karma_config where
  "example_karmaDefault =
     \<lparr>browsers = [''Chrome_no_extensions''],
      reporters = [''super-dots'', ''karmaSimpleReporter''],
      singleRun = True,
      files = [],
      client = \<lparr>captureConsole = False,
                mocha = [(''reporter'', JStr ''html''), (''timeout'', JNum 10000)],
                amp = None\<rparr>\<rparr>"

definition example_paths :: test_paths where
  "example_paths =
     \<lparr>chaiAsPromised = [JStr ''test/chai-as-promised/chai-as-promised.js''],
      commonTestPaths = [JStr ''test/_init_tests.js'',
                         JObj [(''pattern'', JStr ''test/fixtures/served/*.html''),
                               (''included'', JBool False)]],
      integrationTestPaths = [JStr ''test/integration/**/*.js''],
      unitTestOnSaucePaths = [JStr ''test/functional/**/*.js''],
      unitTestPaths = [JStr ''test/functional/**/*.js'', JStr ''extensions/**/test/*.js''],
      a4aTestPaths = [''extensions/amp-a4a/**/test/**/*.js''],
      basicTestPaths = [''test/**/*.js'', ''ads/**/test/test-*.js''],
      testPaths = [JStr ''test/**/*.js'', JStr ''extensions/**/test/**/*.js''],
      simpleTestPath = [JStr ''test/simple-test.js'']\<rparr>"

definition example_glob :: "string \<Rightarrow> string list" where
  "example_glob p =
     (if p = ''test/**/*.js'' then
        [''test/_init_tests.js'', ''test/functional/test-a.js'', ''test/functional/test-b.js'']
      else if p = ''ads/**/test/test-*.js'' then [''ads/google/test/test-utils.js'']
      else if p = ''extensions/amp-a4a/**/test/**/*.js'' then
        [''extensions/amp-a4a/0.1/test/test-a4a.js'',
         ''extensions/amp-a4a/0.1/test/test-refresh.js'']
      else [])"

definition example_shuffle :: "string list \<Rightarrow> jsval \<Rightarrow> string list" where
  "example_shuffle xs seed =
     (case seed of JNum r \<Rightarrow> (if r < 1 / 2 then xs else rev xs) | _ \<Rightarrow> rotate1 xs)"

definition example_number_toString :: "rat \<Rightarrow> string" where
  "example_number_toString r =
     (if r = 0 then ''0'' else if r = 1 / 4 then ''0.25'' else if r = 3 / 4 then ''0.75''
      else if r = 42 then ''42'' else ''#'')"

definition example_env :: environment where
  "example_env = [''SAUCE_USERNAME'' \<mapsto> ''amphtml'', ''SAUCE_ACCESS_KEY'' \<mapsto> ''secret'']"

definition example_world :: world where
  "example_world =
     \<lparr>env = example_env,
      karmaDefault = example_karmaDefault,
      config = example_paths,
      glob_sync = example_glob,
      readdir_ads = Some [''_config.js'', ''a9.js'', ''adblade.js'', ''ads.extern.js'', ''README.md''],
      shuffle = example_shuffle,
      math_random = 1 / 4,
      number_toString = example_number_toString\<rparr>"

text \<open>The same setting over a tree in which the globs match nothing.\<close>

definition example_glob_nothing :: "string \<Rightarrow> string list" where
  "example_glob_nothing p = []"

definition example_empty_world :: world where
  "example_empty_world = example_world\<lparr>glob_sync := example_glob_nothing\<rparr>"

section \<open>Properties\<close>

subsection \<open>Arrays\<close>

lemma indexOf_from_notin: "x \<notin> set xs \<Longrightarrow> indexOf_from xs x i = -1"
  by (induction xs arbitrary: i) auto

lemma js_indexOf_notin: "x \<notin> set xs \<Longrightarrow> js_indexOf xs x = -1"
  by (simp add: js_indexOf_def indexOf_from_notin)

lemma js_splice_last: "js_splice xs (-1) 1 = butlast xs"
proof (cases xs rule: rev_cases)
  case Nil
  then show ?thesis by (simp add: js_splice_def)
next
  case (snoc ys y)
  then show ?thesis by (simp add: js_splice_def Let_def)
qed

subsection \<open>getConfig\<close>

text \<open>
  Claim C8. \<open>getConfig\<close> applies its overrides in a fixed order. A browser flag wins
  over everything else, the first of \<open>--safari\<close>, \<open>--firefox\<close>, \<open>--edge\<close>, \<open>--ie\<close>
  that is set deciding, and the configuration returned is the default one with
  exactly that browser in \<open>browsers\<close>, whatever the Sauce Labs flags and the
  environment are. Without a browser flag, \<open>--saucelabs\<close> or \<open>--saucelabs_lite\<close> (with
  both credentials present) replaces the reporters and the browsers of the default
  configuration. With none of these flags the default configuration is returned as it
  is.
\<close>

theorem getConfig_precedence:
  "(truthy (argv_safari a) \<longrightarrow> getConfig vars kd a = Inr (kd\<lparr>browsers := [''Safari'']\<rparr>))
   \<and> (\<not> truthy (argv_safari a) \<and> truthy (argv_firefox a) \<longrightarrow>
        getConfig vars kd a = Inr (kd\<lparr>browsers := [''Firefox'']\<rparr>))
   \<and> (\<not> truthy (argv_safari a) \<and> \<not> truthy (argv_firefox a) \<and> truthy (argv_edge a) \<longrightarrow>
        getConfig vars kd a = Inr (kd\<lparr>browsers := [''Edge'']\<rparr>))
   \<and> (\<not> truthy (argv_safari a) \<and> \<not> truthy (argv_firefox a) \<and> \<not> truthy (argv_edge a)
        \<and> truthy (argv_ie a) \<longrightarrow>
        getConfig vars kd a = Inr (kd\<lparr>browsers := [''IE'']\<rparr>))
   \<and> (\<not> truthy (argv_safari a) \<and> \<not> truthy (argv_firefox a) \<and> \<not> truthy (argv_edge a)
        \<and> \<not> truthy (argv_ie a)
        \<and> (truthy (argv_saucelabs a) \<or> truthy (argv_saucelabs_lite a))
        \<and> env_truthy vars ''SAUCE_USERNAME'' \<and> env_truthy vars ''SAUCE_ACCESS_KEY'' \<longrightarrow>
        getConfig vars kd a =
          Inr (kd\<lparr>reporters := [''super-dots'', ''saucelabs'', ''karmaSimpleReporter''],
                  browsers := (if truthy (argv_saucelabs a) then saucelabs_browsers
                               else saucelabs_lite_browsers)\<rparr>))
   \<and> (\<not> truthy (argv_safari a) \<and> \<not> truthy (argv_firefox a) \<and> \<not> truthy (argv_edge a)
        \<and> \<not> truthy (argv_ie a)
        \<and> \<not> truthy (argv_saucelabs a) \<and> \<not> truthy (argv_saucelabs_lite a) \<longrightarrow>
        getConfig vars kd a = Inr kd)"
  by (simp add: getConfig_def)

theorem getConfig_precedence_witness:
  "getConfig Map.empty example_karmaDefault
       (no_flags\<lparr>argv_safari := JBool True, argv_firefox := JBool True,
                 argv_saucelabs := JBool True\<rparr>)
     = Inr (example_karmaDefault\<lparr>browsers := [''Safari'']\<rparr>)
   \<and> getConfig Map.empty example_karmaDefault
       (no_flags\<lparr>argv_firefox := JBool True, argv_saucelabs_lite := JBool True\<rparr>)
     = Inr (example_karmaDefault\<lparr>browsers := [''Firefox'']\<rparr>)
   \<and> getConfig example_env example_karmaDefault
       (no_flags\<lparr>argv_edge := JBool True, argv_ie := JBool True\<rparr>)
     = Inr (example_karmaDefault\<lparr>browsers := [''Edge'']\<rparr>)
   \<and> getConfig example_env example_karmaDefault
       (no_flags\<lparr>argv_ie := JBool True, argv_saucelabs := JBool True\<rparr>)
     = Inr (example_karmaDefault\<lparr>browsers := [''IE'']\<rparr>)
   \<and> getConfig example_env example_karmaDefault (no_flags\<lparr>argv_saucelabs_lite := JBool True\<rparr>)
     = Inr (example_karmaDefault
              \<lparr>reporters := [''super-dots'', ''saucelabs'', ''karmaSimpleReporter''],
               browsers := [''SL_Safari_latest'']\<rparr>)
   \<and> getConfig Map.empty example_karmaDefault no_flags = Inr example_karmaDefault"
  using getConfig_precedence
          [of "no_flags\<lparr>argv_safari := JBool True, argv_firefox := JBool True,
                 argv_saucelabs := JBool True\<rparr>" Map.empty example_karmaDefault]
        getConfig_precedence
          [of "no_flags\<lparr>argv_firefox := JBool True, argv_saucelabs_lite := JBool True\<rparr>"
              Map.empty example_karmaDefault]
        getConfig_precedence
          [of "no_flags\<lparr>argv_edge := JBool True, argv_ie := JBool True\<rparr>"
              example_env example_karmaDefault]
        getConfig_precedence
          [of "no_flags\<lparr>argv_ie := JBool True, argv_saucelabs := JBool True\<rparr>"
              example_env example_karmaDefault]
        getConfig_precedence
          [of "no_flags\<lparr>argv_saucelabs_lite := JBool True\<rparr>" example_env example_karmaDefault]
        getConfig_precedence [of no_flags Map.empty example_karmaDefault]
  by (simp add: no_flags_def env_truthy_def example_env_def saucelabs_lite_browsers_def)

text \<open>
  Claim C5. With \<open>--saucelabs\<close> or \<open>--saucelabs_lite\<close> and no browser flag,
  \<open>getConfig\<close> throws when a credential is missing (absent or empty) and returns no
  configuration: the error names \<open>SAUCE_USERNAME\<close> when that one is missing, and
  \<open>SAUCE_ACCESS_KEY\<close> when the user name is there and the key is missing.
\<close>

theorem getConfig_missing_sauce_env:
  assumes "truthy (argv_saucelabs a) \<or> truthy (argv_saucelabs_lite a)"
    and "\<not> truthy (argv_safari a)" and "\<not> truthy (argv_firefox a)"
    and "\<not> truthy (argv_edge a)" and "\<not> truthy (argv_ie a)"
  shows "(\<not> env_truthy vars ''SAUCE_USERNAME'' \<longrightarrow>
            getConfig vars kd a = Inl (Error ''Missing SAUCE_USERNAME Env variable''))
       \<and> (env_truthy vars ''SAUCE_USERNAME'' \<and> \<not> env_truthy vars ''SAUCE_ACCESS_KEY'' \<longrightarrow>
            getConfig vars kd a = Inl (Error ''Missing SAUCE_ACCESS_KEY Env variable''))"
  using assms by (simp add: getConfig_def)

theorem getConfig_missing_sauce_env_witness:
  "getConfig Map.empty example_karmaDefault (no_flags\<lparr>argv_saucelabs_lite := JBool True\<rparr>)
     = Inl (Error ''Missing SAUCE_USERNAME Env variable'')
   \<and> getConfig [''SAUCE_USERNAME'' \<mapsto> ''amphtml''] example_karmaDefault
        (no_flags\<lparr>argv_saucelabs := JBool True\<rparr>)
     = Inl (Error ''Missing SAUCE_ACCESS_KEY Env variable'')"
  using getConfig_missing_sauce_env
          [of "no_flags\<lparr>argv_saucelabs_lite := JBool True\<rparr>" Map.empty example_karmaDefault]
        getConfig_missing_sauce_env
          [of "no_flags\<lparr>argv_saucelabs := JBool True\<rparr>" "[''SAUCE_USERNAME'' \<mapsto> ''amphtml'']"
              example_karmaDefault]
  by (simp add: no_flags_def env_truthy_def)

subsection \<open>getAdTypes\<close>

lemma push_all_append: "push_all acc es = acc @ es"
  by (induction es arbitrary: acc) auto

lemma extname_of_js: 
  assumes "stem \<noteq> []"
  shows "path_extname (stem @ ''.js'') = ''.js''"
  using assms by (simp add: path_extname_def Let_def)

lemma extname_js_ends:
  assumes "path_extname f = ''.js''"
  shows "3 < length f \<and> drop (length f - 3) f = ''.js''"
proof -
  let ?p = "\<lambda>c. c \<noteq> CHR ''.''"
  from assms have dot: "CHR ''.'' \<in> set f"
    by (auto simp: path_extname_def split: if_splits)
  from assms dot have tw: "rev (takeWhile ?p (rev f)) = ''js''"
    and stem: "take (length f - 3) f \<noteq> []"
    by (auto simp: path_extname_def Let_def split: if_splits)
  from tw have "rev (rev (takeWhile ?p (rev f))) = rev ''js''"
    by (rule arg_cong)
  then have tw': "takeWhile ?p (rev f) = ''sj''" by simp
  from dot have ne: "dropWhile ?p (rev f) \<noteq> []"
    by (auto simp: dropWhile_eq_Nil_conv)
  then obtain c r where dw: "dropWhile ?p (rev f) = c # r"
    by (cases "dropWhile ?p (rev f)") auto
  from hd_dropWhile [OF ne] dw have c: "c = CHR ''.''" by simp
  have "rev f = takeWhile ?p (rev f) @ dropWhile ?p (rev f)" by simp
  with tw' dw c have "rev f = ''sj'' @ CHR ''.'' # r" by simp
  then have "rev (rev f) = rev (''sj'' @ CHR ''.'' # r)" by (rule arg_cong)
  then have "f = rev r @ ''.js''" by simp
  with stem show ?thesis by auto
qed

lemma extname_js_iff:
  "path_extname f = ''.js'' \<longleftrightarrow> 3 < length f \<and> drop (length f - 3) f = ''.js''"
proof
  assume "path_extname f = ''.js''" then show "3 < length f \<and> drop (length f - 3) f = ''.js''"
    by (rule extname_js_ends)
next
  assume a: "3 < length f \<and> drop (length f - 3) f = ''.js''"
  then have "f = take (length f - 3) f @ ''.js''" by (metis append_take_drop_id)
  moreover from a have "take (length f - 3) f \<noteq> []" by auto
  ultimately show "path_extname f = ''.js''" using extname_of_js by metis
qed

lemma basename_js:
  "3 < length f \<Longrightarrow> drop (length f - 3) f = ''.js'' \<Longrightarrow> path_basename f ''.js'' = base_name f"
  by (auto simp: path_basename_def base_name_def numeral_3_eq_3)

lemma namingExceptions_get_own:
  assumes "k \<notin> set inherited_names"
  shows "namingExceptions_get k =
           (if k = ''adblade'' \<or> k = ''mantis'' \<or> k = ''weborama''
            then OwnArray (type_entries k) else NoProperty)"
  using assms
  by (simp add: namingExceptions_get_def namingExceptions_def inherited_names_def
      object_prototype_functions_def type_entries_def)

lemma type_entries_other:
  "\<not> (k = ''adblade'' \<or> k = ''mantis'' \<or> k = ''weborama'') \<Longrightarrow> type_entries k = [k]"
  by (simp add: type_entries_def)

lemma scanned_by_code:
  "(path_extname f = ''.js'' \<and> (case f of [] \<Rightarrow> True | c # _ \<Rightarrow> c \<noteq> CHR ''_'')
      \<and> f \<noteq> ''ads.extern.js'') = is_scanned f"
  by (auto simp: is_scanned_def extname_js_iff split: list.splits)

lemma getAdTypes_loop_step:
  "getAdTypes_loop acc (f # fs) =
     (if is_scanned f then
        (case namingExceptions_get (base_name f) of
           OwnArray expanded \<Rightarrow> getAdTypes_loop (acc @ map JStr expanded) fs
         | InheritedFunction n \<Rightarrow> getAdTypes_loop (acc @ replicate n JUndefined) fs
         | InheritedObject \<Rightarrow> getAdTypes_loop acc fs
         | NoProperty \<Rightarrow> getAdTypes_loop (acc @ [JStr (base_name f)]) fs)
      else getAdTypes_loop acc fs)"
proof (cases "is_scanned f")
  case True
  then have b: "path_basename f ''.js'' = base_name f"
    by (simp add: is_scanned_def basename_js)
  from True have c: "path_extname f = ''.js'' \<and> (case f of [] \<Rightarrow> True | c # _ \<Rightarrow> c \<noteq> CHR ''_'')
      \<and> f \<noteq> ''ads.extern.js''" by (simp add: scanned_by_code)
  show ?thesis using True b c by (simp add: push_all_append Let_def split: property.splits)
next
  case False
  then have "\<not> (path_extname f = ''.js'' \<and> (case f of [] \<Rightarrow> True | c # _ \<Rightarrow> c \<noteq> CHR ''_'')
      \<and> f \<noteq> ''ads.extern.js'')" by (simp add: scanned_by_code)
  then have "getAdTypes_loop acc (f # fs) = getAdTypes_loop acc fs" by auto
  then show ?thesis using False by simp
qed

lemma getAdTypes_loop_prefix: "getAdTypes_loop acc listing = acc @ getAdTypes_loop [] listing"
proof (induction listing arbitrary: acc)
  case Nil
  then show ?case by simp
next
  case (Cons f fs)
  have ih: "getAdTypes_loop (acc @ xs) fs = acc @ getAdTypes_loop xs fs" for xs
  proof -
    have "getAdTypes_loop (acc @ xs) fs = (acc @ xs) @ getAdTypes_loop [] fs" by (rule Cons.IH)
    moreover have "getAdTypes_loop xs fs = xs @ getAdTypes_loop [] fs" by (rule Cons.IH)
    ultimately show ?thesis by simp
  qed
  have ih0: "getAdTypes_loop acc fs = acc @ getAdTypes_loop [] fs" by (rule Cons.IH)
  show ?case
    by (cases "namingExceptions_get (base_name f)")
       (simp_all add: getAdTypes_loop_step ih ih0 del: getAdTypes_loop.simps(2))
qed

lemma getAdTypes_loop_without_inherited:
  assumes "\<forall>f \<in> set listing. is_scanned f \<longrightarrow> base_name f \<notin> set inherited_names"
  shows "getAdTypes_loop acc listing =
     acc @ map JStr (concat (map (\<lambda>f. type_entries (base_name f)) (filter is_scanned listing)))"
  using assms
proof (induction listing arbitrary: acc)
  case Nil
  then show ?case by simp
next
  case (Cons f fs)
  then have ih: "getAdTypes_loop xs fs =
     xs @ map JStr (concat (map (\<lambda>f. type_entries (base_name f)) (filter is_scanned fs)))" for xs
    by simp
  show ?case
  proof (cases "is_scanned f")
    case True
    with Cons.prems have "base_name f \<notin> set inherited_names" by simp
    note g = namingExceptions_get_own [OF this]
    show ?thesis
    proof (cases "base_name f = ''adblade'' \<or> base_name f = ''mantis'' \<or> base_name f = ''weborama''")
      case True
      with g have "namingExceptions_get (base_name f) = OwnArray (type_entries (base_name f))"
        by simp
      with \<open>is_scanned f\<close> show ?thesis by (simp add: getAdTypes_loop_step ih del: getAdTypes_loop.simps(2))
    next
      case False
      with g have "namingExceptions_get (base_name f) = NoProperty" by simp
      with \<open>is_scanned f\<close> False show ?thesis
        by (simp add: getAdTypes_loop_step ih type_entries_other del: getAdTypes_loop.simps(2))
    qed
  next
    case False
    then show ?thesis by (simp add: getAdTypes_loop_step ih del: getAdTypes_loop.simps(2))
  qed
qed

lemma getAdTypes_adblade_loop:
  assumes "''adblade.js'' \<in> set listing"
  shows "JStr ''adblade'' \<in> set (getAdTypes_loop acc listing)
       \<and> JStr ''industrybrains'' \<in> set (getAdTypes_loop acc listing)"
  using assms
proof (induction listing arbitrary: acc)
  case Nil
  then show ?case by simp
next
  case (Cons f fs)
  show ?case
  proof (cases "f = ''adblade.js''")
    case True
    have sc: "is_scanned ''adblade.js''" by (simp add: is_scanned_def)
    have g: "namingExceptions_get (base_name ''adblade.js'') = OwnArray [''adblade'', ''industrybrains'']"
      by (simp add: namingExceptions_get_def namingExceptions_def base_name_def)
    have "getAdTypes_loop acc (f # fs) =
            getAdTypes_loop (acc @ [JStr ''adblade'', JStr ''industrybrains'']) fs"
      using True sc g by (simp add: getAdTypes_loop_step del: getAdTypes_loop.simps(2))
    also have "\<dots> = (acc @ [JStr ''adblade'', JStr ''industrybrains'']) @ getAdTypes_loop [] fs"
      by (rule getAdTypes_loop_prefix)
    finally show ?thesis by simp
  next
    case False
    with Cons.prems have "''adblade.js'' \<in> set fs" by simp
    then have ih: "JStr ''adblade'' \<in> set (getAdTypes_loop xs fs)
       \<and> JStr ''industrybrains'' \<in> set (getAdTypes_loop xs fs)" for xs
      by (rule Cons.IH)
    show ?thesis
      by (cases "namingExceptions_get (base_name f)")
         (simp_all add: getAdTypes_loop_step ih del: getAdTypes_loop.simps(2))
  qed
qed

text \<open>
  On a listing in which no scanned file has one of the inherited names as its base
  name, the result is \<open>adsense\<close> and \<open>doubleclick\<close> followed, in the order of the
  listing, by the entries of each scanned file: those the exception table gives for
  its base name, or the base name itself. On every listing the result begins with the
  two built-in entries, and a listing with \<open>adblade.js\<close> yields both \<open>adblade\<close> and
  \<open>industrybrains\<close>.
\<close>

lemma getAdTypes_without_inherited_names:
  assumes "\<forall>f \<in> set listing. is_scanned f \<longrightarrow> base_name f \<notin> set inherited_names"
  shows "getAdTypes listing =
     map JStr ([''adsense'', ''doubleclick''] @
       concat (map (\<lambda>f. type_entries (base_name f)) (filter is_scanned listing)))"
  using getAdTypes_loop_without_inherited [OF assms] by (simp add: getAdTypes_def)

lemma getAdTypes_builtins_and_adblade:
  "(\<exists>rest. getAdTypes listing = JStr ''adsense'' # JStr ''doubleclick'' # rest)
   \<and> (''adblade.js'' \<in> set listing \<longrightarrow>
        JStr ''adblade'' \<in> set (getAdTypes listing)
        \<and> JStr ''industrybrains'' \<in> set (getAdTypes listing))"
proof
  have "getAdTypes listing = [JStr ''adsense'', JStr ''doubleclick''] @ getAdTypes_loop [] listing"
    unfolding getAdTypes_def by (rule getAdTypes_loop_prefix)
  then show "\<exists>rest. getAdTypes listing = JStr ''adsense'' # JStr ''doubleclick'' # rest" by simp
next
  show "''adblade.js'' \<in> set listing \<longrightarrow>
        JStr ''adblade'' \<in> set (getAdTypes listing)
        \<and> JStr ''industrybrains'' \<in> set (getAdTypes listing)"
    unfolding getAdTypes_def using getAdTypes_adblade_loop by blast
qed

text \<open>
  Claim C4. \<open>getAdTypes\<close> returns the two built-in entries followed, for each
  scanned file, by the file's base name or the entries of the exception table. For a
  scanned file whose base name is a member inherited from \<open>Object.prototype\<close> the
  code does not do so: \<open>toString.js\<close> is scanned and contributes no entry at all, and
  \<open>constructor.js\<close> is scanned and contributes \<open>undefined\<close> in place of its name.
\<close>

theorem getAdTypes_inherited_name:
  "is_scanned ''toString.js''
   \<and> getAdTypes [''a9.js'', ''toString.js'', ''adblade.js'']
       = [JStr ''adsense'', JStr ''doubleclick'', JStr ''a9'', JStr ''adblade'',
          JStr ''industrybrains'']
   \<and> is_scanned ''constructor.js''
   \<and> getAdTypes [''constructor.js''] = [JStr ''adsense'', JStr ''doubleclick'', JUndefined]"
  by (simp add: is_scanned_def getAdTypes_def getAdTypes_loop_step base_name_def
      namingExceptions_get_def namingExceptions_def object_prototype_functions_def
      del: getAdTypes_loop.simps(2))

subsection \<open>applyAmpConfig\<close>

text \<open>
  Claim C7. When the target file is not on disk, \<open>applyAmpConfig\<close> resolves and
  leaves the disk as it was. When it is there, \<open>removeConfig\<close> runs on it first and,
  if that succeeds, \<open>applyConfig\<close> applies the selected config (\<open>prod\<close> or \<open>canary\<close>)
  with its config file to what \<open>removeConfig\<close> left.
\<close>

theorem applyAmpConfig_missing_target:
  "(\<not> existsSync d targetFile \<longrightarrow>
      applyAmpConfig removeConfig applyConfig a targetFile d = Inr d)
   \<and> (existsSync d targetFile \<longrightarrow>
      applyAmpConfig removeConfig applyConfig a targetFile d =
        (case removeConfig targetFile d of
           Inl e \<Rightarrow> Inl e
         | Inr d' \<Rightarrow>
             applyConfig (ampConfig a) targetFile
               (''build-system/global-configs/'' @ ampConfig a @ ''-config.json'') True True d'))"
  by (simp add: applyAmpConfig_def Let_def split: sum.splits)

theorem applyAmpConfig_missing_target_witness:
  "\<not> existsSync [''dist/v0.js'' \<mapsto> ''self.AMP_CONFIG={};var v0''] ''dist/amp.js''
   \<and> applyAmpConfig (\<lambda>t d. Inr (d(t \<mapsto> drop 19 (the (d t)))))
         (\<lambda>cfg t f ld lb d. Inr (d(t \<mapsto> cfg @ '':'' @ the (d t))))
         no_flags ''dist/amp.js'' [''dist/v0.js'' \<mapsto> ''self.AMP_CONFIG={};var v0'']
       = Inr [''dist/v0.js'' \<mapsto> ''self.AMP_CONFIG={};var v0'']
   \<and> existsSync [''dist/v0.js'' \<mapsto> ''self.AMP_CONFIG={};var v0''] ''dist/v0.js''
   \<and> applyAmpConfig (\<lambda>t d. Inr (d(t \<mapsto> drop 19 (the (d t)))))
         (\<lambda>cfg t f ld lb d. Inr (d(t \<mapsto> cfg @ '':'' @ the (d t))))
         no_flags ''dist/v0.js'' [''dist/v0.js'' \<mapsto> ''self.AMP_CONFIG={};var v0'']
       = Inr [''dist/v0.js'' \<mapsto> ''prod:var v0'']"
  using applyAmpConfig_missing_target
          [of "[''dist/v0.js'' \<mapsto> ''self.AMP_CONFIG={};var v0'']" "''dist/amp.js''"
              "\<lambda>t d. Inr (d(t \<mapsto> drop 19 (the (d t))))"
              "\<lambda>cfg t f ld lb d. Inr (d(t \<mapsto> cfg @ '':'' @ the (d t)))" no_flags]
        applyAmpConfig_missing_target
          [of "[''dist/v0.js'' \<mapsto> ''self.AMP_CONFIG={};var v0'']" "''dist/v0.js''"
              "\<lambda>t d. Inr (d(t \<mapsto> drop 19 (the (d t))))"
              "\<lambda>cfg t f ld lb d. Inr (d(t \<mapsto> cfg @ '':'' @ the (d t)))" no_flags]
  by (simp add: existsSync_def ampConfig_def no_flags_def)

subsection \<open>The file list of a run\<close>

lemma files_assemble:
  "files (snd (assemble_files w a c)) =
     (if truthy (argv_saucelabs a) then [] else chaiAsPromised (config w))
     @ suite_of w a (selection_mode_of a)
     @ (if truthy (argv_saucelabs a) \<or> truthy (argv_saucelabs_lite a)
        then simpleTestPath (config w) else [])"
  by (simp add: assemble_files_def selection_mode_of_def Let_def split: prod.splits)

lemma files_finish: "files (fst (snd (finish_config a listing c))) = files c"
  by (simp add: finish_config_def Let_def)

lemma runTests_started:
  assumes "runTests w a = (evs, KarmaStarted c m)"
  shows "\<exists>c0 listing.
           getConfig (env w) (karmaDefault w) a = Inr c0 \<and> readdir_ads w = Some listing
           \<and> \<not> (truthy (argv_saucelabs a) \<and> \<not> truthy (argv_integration a))
           \<and> c = fst (snd (finish_config a listing (snd (assemble_files w a (run_flags a c0)))))"
proof (cases "getConfig (env w) (karmaDefault w) a")
  case (Inl e)
  with assms show ?thesis by (simp add: runTests_def Let_def)
next
  case (Inr c0)
  show ?thesis
  proof (cases "readdir_ads w")
    case None
    with assms Inr show ?thesis
      by (simp add: runTests_def Let_def split: if_splits prod.splits)
  next
    case (Some listing)
    with assms Inr show ?thesis
      by (simp add: runTests_def Let_def split: if_splits prod.splits)
  qed
qed

lemma runTests_files:
  assumes "runTests w a = (evs, KarmaStarted c m)"
  shows "files c =
     (if truthy (argv_saucelabs a) then [] else chaiAsPromised (config w))
     @ suite_of w a (selection_mode_of a)
     @ (if truthy (argv_saucelabs a) \<or> truthy (argv_saucelabs_lite a)
        then simpleTestPath (config w) else [])"
proof -
  from runTests_started [OF assms] obtain c3 listing
    where "c = fst (snd (finish_config a listing (snd (assemble_files w a (run_flags a c3)))))" by blast
  then show ?thesis by (simp only: files_finish files_assemble)
qed

lemma files_of_started:
  assumes "files_of (runTests w a) = Some fs"
  shows "\<exists>evs c m. runTests w a = (evs, KarmaStarted c m) \<and> fs = files c"
proof (cases "runTests w a")
  case (Pair evs out)
  with assms show ?thesis by (cases out) auto
qed

lemma files_of_runTests:
  assumes "files_of (runTests w a) = Some fs"
  shows "fs =
     (if truthy (argv_saucelabs a) then [] else chaiAsPromised (config w))
     @ suite_of w a (selection_mode_of a)
     @ (if truthy (argv_saucelabs a) \<or> truthy (argv_saucelabs_lite a)
        then simpleTestPath (config w) else [])"
proof -
  from files_of_started [OF assms] obtain evs c m
    where "runTests w a = (evs, KarmaStarted c m)" and "fs = files c" by blast
  then show ?thesis using runTests_files by simp
qed

lemma runTests_reaches_karma:
  assumes "getConfig (env w) (karmaDefault w) a = Inr c0"
    and "\<not> (truthy (argv_saucelabs a) \<and> \<not> truthy (argv_integration a))"
    and "readdir_ads w = Some listing"
  shows "files_of (runTests w a) =
           Some (files (fst (snd (finish_config a listing
                   (snd (assemble_files w a (run_flags a c0)))))))"
  using assms by (simp add: runTests_def Let_def split: prod.splits)

lemma runTests_example_files_flag:
  "files_of (runTests example_world
       (no_flags\<lparr>argv_files := JStr ''test/functional/test-a.js'', argv_integration := JBool True,
                 argv_unit := JBool True, argv_randomize := JBool True\<rparr>))
   = Some [JStr ''test/chai-as-promised/chai-as-promised.js'', JStr ''test/_init_tests.js'',
           JObj [(''pattern'', JStr ''test/fixtures/served/*.html''), (''included'', JBool False)],
           JStr ''test/functional/test-a.js'']"
  by (simp add: runTests_def Let_def no_flags_def example_world_def getConfig_def example_glob_nothing_def
      env_truthy_def example_env_def assemble_files_def example_paths_def
      finish_config_def run_flags_def)

lemma runTests_example_integration_sauce:
  "files_of (runTests example_world
       (no_flags\<lparr>argv_saucelabs := JBool True, argv_integration := JBool True\<rparr>))
   = Some [JStr ''test/integration/**/*.js'', JStr ''test/simple-test.js'']"
  by (simp add: runTests_def Let_def no_flags_def example_world_def getConfig_def example_glob_nothing_def
      env_truthy_def example_env_def assemble_files_def example_paths_def
      finish_config_def run_flags_def)

text \<open>
  Claim C3. Whenever a run gets as far as a file list, that list is the start of the
  list (\<open>chaiAsPromised\<close>, or nothing with \<open>--saucelabs\<close>), then the suite of exactly
  one selection mode, then the smoke test on Sauce Labs runs. The mode is found by the
  fixed precedence of \<open>selection_mode_of\<close>: \<open>--files\<close>, else \<open>--integration\<close>, else
  \<open>--unit\<close> (the lab-safe subset with \<open>--saucelabs_lite\<close>), else \<open>--randomize\<close>,
  \<open>--glob\<close> or \<open>--a4a\<close>, else the default suite.
\<close>

theorem selection_precedence:
  assumes "files_of (runTests w a) = Some fs"
  shows "fs =
     (if truthy (argv_saucelabs a) then [] else chaiAsPromised (config w))
     @ suite_of w a (selection_mode_of a)
     @ (if truthy (argv_saucelabs a) \<or> truthy (argv_saucelabs_lite a)
        then simpleTestPath (config w) else [])"
  using assms by (rule files_of_runTests)

theorem selection_precedence_witness:
  "files_of (runTests example_world
       (no_flags\<lparr>argv_files := JStr ''test/functional/test-a.js'', argv_integration := JBool True,
                 argv_unit := JBool True, argv_randomize := JBool True\<rparr>))
   = Some [JStr ''test/chai-as-promised/chai-as-promised.js'', JStr ''test/_init_tests.js'',
           JObj [(''pattern'', JStr ''test/fixtures/served/*.html''), (''included'', JBool False)],
           JStr ''test/functional/test-a.js'']
   \<and> selection_mode_of
       (no_flags\<lparr>argv_files := JStr ''test/functional/test-a.js'', argv_integration := JBool True,
                 argv_unit := JBool True, argv_randomize := JBool True\<rparr>) = ExplicitFiles
   \<and> [JStr ''test/chai-as-promised/chai-as-promised.js'', JStr ''test/_init_tests.js'',
           JObj [(''pattern'', JStr ''test/fixtures/served/*.html''), (''included'', JBool False)],
           JStr ''test/functional/test-a.js'']
     = chaiAsPromised example_paths @ commonTestPaths example_paths
       @ [JStr ''test/functional/test-a.js'']"
  using selection_precedence [OF runTests_example_files_flag] runTests_example_files_flag
  by (simp add: selection_mode_of_def no_flags_def example_paths_def)

text \<open>
  Claim C6. With \<open>--saucelabs\<close> or \<open>--saucelabs_lite\<close>, the file list of a run that
  gets as far as a file list ends with \<open>config.simpleTestPath\<close>, appended to what the
  active selection mode contributed, whichever mode that is.
\<close>

theorem smoke_test_appended:
  assumes "files_of (runTests w a) = Some fs"
    and "truthy (argv_saucelabs a) \<or> truthy (argv_saucelabs_lite a)"
  shows "fs =
     ((if truthy (argv_saucelabs a) then [] else chaiAsPromised (config w))
      @ suite_of w a (selection_mode_of a))
     @ simpleTestPath (config w)"
  using files_of_runTests [OF assms(1)] assms(2) by simp

theorem smoke_test_appended_witness:
  "files_of (runTests example_world
       (no_flags\<lparr>argv_saucelabs := JBool True, argv_integration := JBool True\<rparr>))
   = Some [JStr ''test/integration/**/*.js'', JStr ''test/simple-test.js'']
   \<and> truthy (argv_saucelabs (no_flags\<lparr>argv_saucelabs := JBool True, argv_integration := JBool True\<rparr>))
   \<and> [JStr ''test/integration/**/*.js'', JStr ''test/simple-test.js'']
     = integrationTestPaths example_paths @ simpleTestPath example_paths"
  using smoke_test_appended [OF runTests_example_integration_sauce] runTests_example_integration_sauce
  by (simp add: no_flags_def example_paths_def)

subsection \<open>The randomized branch\<close>

lemma randomized_suite_init_absent:
  assumes "tf = snd (randomize_files w a (globbed_files w a))"
    and "''test/_init_tests.js'' \<notin> set tf"
  shows "snd (randomized_suite w a) = commonTestPaths (config w) @ map JStr (butlast tf)"
  using assms
  by (simp add: randomized_suite_def Let_def case_prod_beta js_indexOf_notin js_splice_last)

lemma example_a4a_files:
  "snd (randomize_files example_world (no_flags\<lparr>argv_a4a := JBool True, argv_seed := JNum 42\<rparr>)
      (globbed_files example_world (no_flags\<lparr>argv_a4a := JBool True, argv_seed := JNum 42\<rparr>)))
   = [''extensions/amp-a4a/0.1/test/test-refresh.js'', ''extensions/amp-a4a/0.1/test/test-a4a.js'']"
  by (simp add: randomize_files_def globbed_files_def no_flags_def example_world_def
      example_paths_def example_glob_def example_shuffle_def js_or_def)

lemma runTests_example_a4a:
  "files_of (runTests example_world (no_flags\<lparr>argv_a4a := JBool True, argv_seed := JNum 42\<rparr>))
   = Some [JStr ''test/chai-as-promised/chai-as-promised.js'', JStr ''test/_init_tests.js'',
           JObj [(''pattern'', JStr ''test/fixtures/served/*.html''), (''included'', JBool False)],
           JStr ''extensions/amp-a4a/0.1/test/test-refresh.js'']"
  by (simp add: runTests_def Let_def no_flags_def example_world_def getConfig_def example_glob_nothing_def
      env_truthy_def example_env_def assemble_files_def example_paths_def
      finish_config_def run_flags_def randomized_suite_def randomize_files_def
      globbed_files_def example_glob_def example_shuffle_def js_or_def js_indexOf_def
      js_splice_def)

text \<open>
  Claim C9, amended. When \<open>test/_init_tests.js\<close> is not in the globbed (and possibly
  shuffled) list, \<open>indexOf\<close> is \<open>-1\<close> and the splice removes the last element of the
  list if it has one: a list that is not empty loses its last file, which is then
  missing from the file list of the run, and an empty list stays empty.
\<close>

theorem init_absent_drops_last:
  assumes "tf = snd (randomize_files w a (globbed_files w a))"
    and "''test/_init_tests.js'' \<notin> set tf"
  shows "js_splice tf (js_indexOf tf ''test/_init_tests.js'') 1 = butlast tf
     \<and> (tf \<noteq> [] \<longrightarrow> tf = butlast tf @ [last tf])
     \<and> (tf = [] \<longrightarrow> butlast tf = tf)
     \<and> (selection_mode_of a = RandomizedSuite \<and> files_of (runTests w a) = Some fs \<longrightarrow>
          fs = (if truthy (argv_saucelabs a) then [] else chaiAsPromised (config w))
               @ commonTestPaths (config w) @ map JStr (butlast tf)
               @ (if truthy (argv_saucelabs a) \<or> truthy (argv_saucelabs_lite a)
                  then simpleTestPath (config w) else []))"
proof (intro conjI impI)
  show "js_splice tf (js_indexOf tf ''test/_init_tests.js'') 1 = butlast tf"
    using assms(2) by (simp add: js_indexOf_notin js_splice_last)
next
  assume "tf \<noteq> []" then show "tf = butlast tf @ [last tf]" by simp
next
  assume "tf = []" then show "butlast tf = tf" by simp
next
  assume h: "selection_mode_of a = RandomizedSuite \<and> files_of (runTests w a) = Some fs"
  then have "suite_of w a (selection_mode_of a) = snd (randomized_suite w a)" by simp
  with files_of_runTests [of w a fs] h randomized_suite_init_absent [OF assms]
  show "fs = (if truthy (argv_saucelabs a) then [] else chaiAsPromised (config w))
               @ commonTestPaths (config w) @ map JStr (butlast tf)
               @ (if truthy (argv_saucelabs a) \<or> truthy (argv_saucelabs_lite a)
                  then simpleTestPath (config w) else [])"
    by simp
qed

theorem init_absent_drops_last_witness:
  "[''extensions/amp-a4a/0.1/test/test-refresh.js'', ''extensions/amp-a4a/0.1/test/test-a4a.js'']
     = snd (randomize_files example_world (no_flags\<lparr>argv_a4a := JBool True, argv_seed := JNum 42\<rparr>)
        (globbed_files example_world (no_flags\<lparr>argv_a4a := JBool True, argv_seed := JNum 42\<rparr>)))
   \<and> ''test/_init_tests.js'' \<notin> set [''extensions/amp-a4a/0.1/test/test-refresh.js'',
                                      ''extensions/amp-a4a/0.1/test/test-a4a.js'']
   \<and> selection_mode_of (no_flags\<lparr>argv_a4a := JBool True, argv_seed := JNum 42\<rparr>) = RandomizedSuite
   \<and> files_of (runTests example_world (no_flags\<lparr>argv_a4a := JBool True, argv_seed := JNum 42\<rparr>))
     = Some [JStr ''test/chai-as-promised/chai-as-promised.js'', JStr ''test/_init_tests.js'',
           JObj [(''pattern'', JStr ''test/fixtures/served/*.html''), (''included'', JBool False)],
           JStr ''extensions/amp-a4a/0.1/test/test-refresh.js'']
   \<and> js_splice [''extensions/amp-a4a/0.1/test/test-refresh.js'',
                 ''extensions/amp-a4a/0.1/test/test-a4a.js'']
        (js_indexOf [''extensions/amp-a4a/0.1/test/test-refresh.js'',
                     ''extensions/amp-a4a/0.1/test/test-a4a.js''] ''test/_init_tests.js'') 1
     = [''extensions/amp-a4a/0.1/test/test-refresh.js'']"
  using init_absent_drops_last
          [of "[''extensions/amp-a4a/0.1/test/test-refresh.js'',
                ''extensions/amp-a4a/0.1/test/test-a4a.js'']"
              example_world "no_flags\<lparr>argv_a4a := JBool True, argv_seed := JNum 42\<rparr>"
              "[JStr ''test/chai-as-promised/chai-as-promised.js'', JStr ''test/_init_tests.js'',
                JObj [(''pattern'', JStr ''test/fixtures/served/*.html''), (''included'', JBool False)],
                JStr ''extensions/amp-a4a/0.1/test/test-refresh.js'']"]
        example_a4a_files runTests_example_a4a
  by (simp add: selection_mode_of_def no_flags_def)

text \<open>
  The claim as first stated says that one file is dropped for every list without
  \<open>test/_init_tests.js\<close>. Over a tree in which the globs match nothing, the list is
  empty, the splice leaves it as it is and the run gets the common paths only: no
  file is dropped.
\<close>

theorem empty_glob_drops_nothing:
  "globbed_files example_empty_world (no_flags\<lparr>argv_glob := JBool True\<rparr>) = []
   \<and> snd (randomize_files example_empty_world (no_flags\<lparr>argv_glob := JBool True\<rparr>)
         (globbed_files example_empty_world (no_flags\<lparr>argv_glob := JBool True\<rparr>))) = []
   \<and> ''test/_init_tests.js'' \<notin> set (globbed_files example_empty_world (no_flags\<lparr>argv_glob := JBool True\<rparr>))
   \<and> js_splice (globbed_files example_empty_world (no_flags\<lparr>argv_glob := JBool True\<rparr>))
        (js_indexOf (globbed_files example_empty_world (no_flags\<lparr>argv_glob := JBool True\<rparr>))
           ''test/_init_tests.js'') 1
     = globbed_files example_empty_world (no_flags\<lparr>argv_glob := JBool True\<rparr>)
   \<and> files_of (runTests example_empty_world (no_flags\<lparr>argv_glob := JBool True\<rparr>))
     = Some [JStr ''test/chai-as-promised/chai-as-promised.js'', JStr ''test/_init_tests.js'',
           JObj [(''pattern'', JStr ''test/fixtures/served/*.html''), (''included'', JBool False)]]"
  by (simp add: runTests_def Let_def no_flags_def example_world_def example_empty_world_def
      getConfig_def example_glob_nothing_def
      env_truthy_def example_env_def assemble_files_def example_paths_def
      finish_config_def run_flags_def randomized_suite_def randomize_files_def
      globbed_files_def example_glob_def example_shuffle_def js_or_def js_indexOf_def
      js_splice_def)

lemma getConfig_seed: "getConfig vars kd (a\<lparr>argv_seed := x\<rparr>) = getConfig vars kd a"
  by (simp add: getConfig_def)

lemma run_flags_seed: "run_flags (a\<lparr>argv_seed := x\<rparr>) c = run_flags a c"
  by (simp add: run_flags_def Let_def)

lemma finish_config_seed: "finish_config (a\<lparr>argv_seed := x\<rparr>) l c = finish_config a l c"
  by (simp add: finish_config_def Let_def)

lemma globbed_files_seed: "globbed_files w (a\<lparr>argv_seed := x\<rparr>) = globbed_files w a"
  by (simp add: globbed_files_def)

lemma randomize_files_falsy_seed:
  assumes "\<not> truthy (argv_seed a)" and "\<not> truthy x"
  shows "randomize_files w (a\<lparr>argv_seed := x\<rparr>) tf = randomize_files w a tf"
  using assms by (simp add: randomize_files_def js_or_def)

lemma randomized_suite_falsy_seed:
  assumes "\<not> truthy (argv_seed a)" and "\<not> truthy x"
  shows "randomized_suite w (a\<lparr>argv_seed := x\<rparr>) = randomized_suite w a"
  by (simp only: randomized_suite_def globbed_files_seed randomize_files_falsy_seed [OF assms])

lemma assemble_files_falsy_seed:
  assumes "\<not> truthy (argv_seed a)" and "\<not> truthy x"
  shows "assemble_files w (a\<lparr>argv_seed := x\<rparr>) c = assemble_files w a c"
  by (simp add: assemble_files_def Let_def randomized_suite_falsy_seed [OF assms])

lemma runTests_falsy_seed:
  assumes "\<not> truthy (argv_seed a)" and "\<not> truthy x"
  shows "runTests w (a\<lparr>argv_seed := x\<rparr>) = runTests w a"
  by (simp add: runTests_def Let_def getConfig_seed run_flags_seed finish_config_seed
      assemble_files_falsy_seed [OF assms]
      cong: if_cong sum.case_cong option.case_cong)

text \<open>
  Claim C10. With \<open>--seed=0\<close> the seed is falsy, so \<open>argv.seed || Math.random()\<close>
  is the random number: the run is the run without any seed, the number logged and
  given to the shuffle is the one \<open>Math.random()\<close> returned, and two runs with seed
  \<open>0\<close> whose random numbers shuffle the list differently order the files
  differently.
\<close>

theorem seed_zero_discarded:
  assumes "argv_seed a = JNum 0"
  shows "runTests w a = runTests w (a\<lparr>argv_seed := JUndefined\<rparr>)
     \<and> (truthy (argv_randomize a) \<or> truthy (argv_a4a a) \<longrightarrow>
          randomize_files w a tf =
            ([Log [Styled Yellow [JStr ''Randomizing:''],
                   Styled Cyan [JStr ''Seeding with value'', JNum (math_random w)]],
              Log [Styled Yellow [JStr ''To rerun same ordering, append''],
                   Styled Cyan [JStr (''--seed='' @ number_toString w (math_random w))],
                   Styled Yellow [JStr ''to your invocation of''],
                   Styled Cyan [JStr ''gulp test'']]],
             shuffle w tf (JNum (math_random w))))
     \<and> ((truthy (argv_randomize a) \<or> truthy (argv_a4a a))
          \<and> shuffle w tf (JNum r1) \<noteq> shuffle w tf (JNum r2) \<longrightarrow>
          snd (randomize_files (w\<lparr>math_random := r1\<rparr>) a tf)
            \<noteq> snd (randomize_files (w\<lparr>math_random := r2\<rparr>) a tf))"
proof (intro conjI impI)
  from assms have "\<not> truthy (argv_seed a)" by simp
  then show "runTests w a = runTests w (a\<lparr>argv_seed := JUndefined\<rparr>)"
    by (simp add: runTests_falsy_seed)
next
  assume "truthy (argv_randomize a) \<or> truthy (argv_a4a a)"
  with assms show "randomize_files w a tf =
            ([Log [Styled Yellow [JStr ''Randomizing:''],
                   Styled Cyan [JStr ''Seeding with value'', JNum (math_random w)]],
              Log [Styled Yellow [JStr ''To rerun same ordering, append''],
                   Styled Cyan [JStr (''--seed='' @ number_toString w (math_random w))],
                   Styled Yellow [JStr ''to your invocation of''],
                   Styled Cyan [JStr ''gulp test'']]],
             shuffle w tf (JNum (math_random w)))"
    by (simp add: randomize_files_def js_or_def Let_def)
next
  assume "(truthy (argv_randomize a) \<or> truthy (argv_a4a a))
          \<and> shuffle w tf (JNum r1) \<noteq> shuffle w tf (JNum r2)"
  with assms show "snd (randomize_files (w\<lparr>math_random := r1\<rparr>) a tf)
            \<noteq> snd (randomize_files (w\<lparr>math_random := r2\<rparr>) a tf)"
    by (simp add: randomize_files_def js_or_def Let_def)
qed

theorem seed_zero_discarded_witness:
  "argv_seed (no_flags\<lparr>argv_a4a := JBool True, argv_seed := JNum 0\<rparr>) = JNum 0
   \<and> truthy (argv_a4a (no_flags\<lparr>argv_a4a := JBool True, argv_seed := JNum 0\<rparr>))
   \<and> shuffle example_world [''t1.js'', ''t2.js''] (JNum (1 / 4))
       \<noteq> shuffle example_world [''t1.js'', ''t2.js''] (JNum (3 / 4))
   \<and> snd (randomize_files (example_world\<lparr>math_random := 1 / 4\<rparr>)
            (no_flags\<lparr>argv_a4a := JBool True, argv_seed := JNum 0\<rparr>) [''t1.js'', ''t2.js''])
       = [''t1.js'', ''t2.js'']
   \<and> snd (randomize_files (example_world\<lparr>math_random := 3 / 4\<rparr>)
            (no_flags\<lparr>argv_a4a := JBool True, argv_seed := JNum 0\<rparr>) [''t1.js'', ''t2.js''])
       = [''t2.js'', ''t1.js'']
   \<and> runTests example_world (no_flags\<lparr>argv_a4a := JBool True, argv_seed := JNum 0\<rparr>)
       = runTests example_world (no_flags\<lparr>argv_a4a := JBool True\<rparr>)"
  using seed_zero_discarded
          [of "no_flags\<lparr>argv_a4a := JBool True, argv_seed := JNum 0\<rparr>" example_world
              "[''t1.js'', ''t2.js'']" "1 / 4" "3 / 4"]
        seed_zero_discarded
          [of "no_flags\<lparr>argv_a4a := JBool True, argv_seed := JNum 0\<rparr>"
              "example_world\<lparr>math_random := 1 / 4\<rparr>" "[''t1.js'', ''t2.js'']" "1 / 4" "3 / 4"]
        seed_zero_discarded
          [of "no_flags\<lparr>argv_a4a := JBool True, argv_seed := JNum 0\<rparr>"
              "example_world\<lparr>math_random := 3 / 4\<rparr>" "[''t1.js'', ''t2.js'']" "1 / 4" "3 / 4"]
  by (simp add: no_flags_def example_world_def example_shuffle_def)

text \<open>
  With a truthy seed the random number plays no part: the run is the same whatever
  \<open>Math.random()\<close> would return, and the seed logged and given to the shuffle is the
  caller's.
\<close>

lemma truthy_seed_deterministic:
  assumes "truthy (argv_seed a)"
  shows "runTests (w\<lparr>math_random := r\<rparr>) a = runTests w a
     \<and> (truthy (argv_randomize a) \<or> truthy (argv_a4a a) \<longrightarrow>
          randomize_files w a tf =
            ([Log [Styled Yellow [JStr ''Randomizing:''],
                   Styled Cyan [JStr ''Seeding with value'', argv_seed a]],
              Log [Styled Yellow [JStr ''To rerun same ordering, append''],
                   Styled Cyan [JStr (''--seed='' @ js_toString (number_toString w) (argv_seed a))],
                   Styled Yellow [JStr ''to your invocation of''],
                   Styled Cyan [JStr ''gulp test'']]],
             shuffle w tf (argv_seed a)))"
proof -
  have rf: "randomize_files (w\<lparr>math_random := r\<rparr>) a xs = randomize_files w a xs" for xs
    using assms by (simp add: randomize_files_def js_or_def Let_def)
  have gf: "globbed_files (w\<lparr>math_random := r\<rparr>) a = globbed_files w a"
    by (simp add: globbed_files_def)
  have rs: "randomized_suite (w\<lparr>math_random := r\<rparr>) a = randomized_suite w a"
    by (simp add: randomized_suite_def gf rf)
  have af: "assemble_files (w\<lparr>math_random := r\<rparr>) a c = assemble_files w a c" for c
    by (simp add: assemble_files_def Let_def rs)
  have 1: "runTests (w\<lparr>math_random := r\<rparr>) a = runTests w a"
    by (simp add: runTests_def Let_def af cong: if_cong sum.case_cong option.case_cong)
  have 2: "truthy (argv_randomize a) \<or> truthy (argv_a4a a) \<Longrightarrow>
          randomize_files w a tf =
            ([Log [Styled Yellow [JStr ''Randomizing:''],
                   Styled Cyan [JStr ''Seeding with value'', argv_seed a]],
              Log [Styled Yellow [JStr ''To rerun same ordering, append''],
                   Styled Cyan [JStr (''--seed='' @ js_toString (number_toString w) (argv_seed a))],
                   Styled Yellow [JStr ''to your invocation of''],
                   Styled Cyan [JStr ''gulp test'']]],
             shuffle w tf (argv_seed a))"
    using assms by (simp add: randomize_files_def js_or_def Let_def)
  from 1 2 show ?thesis by blast
qed

text \<open>
  Claim C1. Two runs with the same seed and the same files order the files in the
  same way, and the seed used is logged. For the seed \<open>0\<close> the code does not do
  so: two runs with \<open>--randomize --seed=0\<close> over the same tree, which differ only in
  what \<open>Math.random()\<close> returns, hand Karma the files in different orders, and the
  seed logged is the random number.
\<close>

theorem seed_zero_orderings_differ:
  "files_of (runTests (example_world\<lparr>math_random := 1 / 4\<rparr>)
       (no_flags\<lparr>argv_randomize := JBool True, argv_seed := JNum 0\<rparr>))
     = Some [JStr ''test/chai-as-promised/chai-as-promised.js'', JStr ''test/_init_tests.js'',
             JObj [(''pattern'', JStr ''test/fixtures/served/*.html''), (''included'', JBool False)],
             JStr ''test/functional/test-a.js'', JStr ''test/functional/test-b.js'',
             JStr ''ads/google/test/test-utils.js'']
   \<and> files_of (runTests (example_world\<lparr>math_random := 3 / 4\<rparr>)
       (no_flags\<lparr>argv_randomize := JBool True, argv_seed := JNum 0\<rparr>))
     = Some [JStr ''test/chai-as-promised/chai-as-promised.js'', JStr ''test/_init_tests.js'',
             JObj [(''pattern'', JStr ''test/fixtures/served/*.html''), (''included'', JBool False)],
             JStr ''ads/google/test/test-utils.js'', JStr ''test/functional/test-b.js'',
             JStr ''test/functional/test-a.js'']
   \<and> fst (runTests (example_world\<lparr>math_random := 3 / 4\<rparr>)
       (no_flags\<lparr>argv_randomize := JBool True, argv_seed := JNum 0\<rparr>))
     = [Log [Styled Yellow [JStr ''Randomizing:''],
             Styled Cyan [JStr ''Seeding with value'', JNum (3 / 4)]],
        Log [Styled Yellow [JStr ''To rerun same ordering, append''],
             Styled Cyan [JStr ''--seed=0.75''],
             Styled Yellow [JStr ''to your invocation of''],
             Styled Cyan [JStr ''gulp test'']],
        Webserver 31862,
        Log [Styled Yellow [JStr ''Started test responses server on localhost:31862'']]]"
  by (simp add: runTests_def Let_def no_flags_def example_world_def getConfig_def
      env_truthy_def example_env_def assemble_files_def example_paths_def
      finish_config_def run_flags_def randomized_suite_def randomize_files_def
      globbed_files_def example_glob_def example_shuffle_def js_or_def js_indexOf_def
      js_splice_def example_number_toString_def)

subsection \<open>Sauce Labs without integration tests\<close>

text \<open>
  With \<open>--saucelabs\<close> and without \<open>--integration\<close> no run reaches Karma: it ends in
  \<open>process.exit()\<close>, or before that in the error \<open>getConfig\<close> throws.
\<close>

lemma saucelabs_without_integration_aborts:
  assumes "truthy (argv_saucelabs a)" and "\<not> truthy (argv_integration a)"
  shows "files_of (runTests w a) = None
     \<and> (\<forall>c0. getConfig (env w) (karmaDefault w) a = Inr c0 \<longrightarrow> snd (runTests w a) = Exited None)
     \<and> (\<forall>e. getConfig (env w) (karmaDefault w) a = Inl e \<longrightarrow> snd (runTests w a) = Threw e)"
  using assms by (cases "getConfig (env w) (karmaDefault w) a") (simp_all add: runTests_def Let_def)

text \<open>
  Claim C2. A run with \<open>--saucelabs\<close> and without \<open>--integration\<close> prints an error
  and leaves the process before Karma is started, with a status that is not zero. The
  code prints the two lines and calls \<open>process.exit()\<close> without a code: the status of
  the process is \<open>0\<close>.
\<close>

theorem saucelabs_without_integration_exits_zero:
  "runTests example_world (no_flags\<lparr>argv_saucelabs := JBool True\<rparr>)
     = ([Log [Styled Red [JStr ''Only integration tests may be run on the full set of Sauce Labs browsers'']],
         Log [Styled Red [JStr ''Use''], Styled Cyan [JStr ''--saucelabs''],
              Styled Red [JStr ''with''], Styled Cyan [JStr ''--integration'']]],
        Exited None)
   \<and> exit_status None None = 0"
  by (simp add: runTests_def Let_def no_flags_def example_world_def getConfig_def
      env_truthy_def example_env_def exit_status_def)

end
